theory Spec2Isabelle
  imports Complex_Main
begin

section \<open>Python values\<close>

text \<open>
  The decorators of \<^verbatim>\<open>opsdroid/matchers.py\<close> store whatever the caller passes, so the
  arguments are dynamically typed values. A float is kept as the rational it denotes (or
  one of the three special values); the module never computes with it, it only tests its
  truth value and stores it. A function object is a reference into the heap.
\<close>

type_synonym ref = nat

datatype pyfloat = Finite rat | PosInf | NegInf | NaN

datatype pyval =
    VNone
  | VBool bool
  | VInt int
  | VFloat pyfloat
  | VStr string
  | VDict "(string \<times> pyval) list"
  | VFunc ref

text \<open>Python's truth value testing: \<^verbatim>\<open>None\<close>, \<^verbatim>\<open>False\<close>, zero, the empty string and
  the empty dict are false, everything else (also \<^verbatim>\<open>nan\<close> and the infinities) is true.\<close>

fun float_truthy :: "pyfloat \<Rightarrow> bool" where
  "float_truthy (Finite q) = (q \<noteq> 0)"
| "float_truthy PosInf = True"
| "float_truthy NegInf = True"
| "float_truthy NaN = True"

fun truthy :: "pyval \<Rightarrow> bool" where
  "truthy VNone = False"
| "truthy (VBool b) = b"
| "truthy (VInt i) = (i \<noteq> 0)"
| "truthy (VFloat f) = float_truthy f"
| "truthy (VStr s) = (s \<noteq> [])"
| "truthy (VDict kvs) = (kvs \<noteq> [])"
| "truthy (VFunc r) = True"

text \<open>\<^verbatim>\<open>x or y\<close> evaluates to \<^verbatim>\<open>x\<close> when \<^verbatim>\<open>x\<close> is true and to \<^verbatim>\<open>y\<close> otherwise.\<close>

definition py_or :: "pyval \<Rightarrow> pyval \<Rightarrow> pyval" where
  "py_or x y = (if truthy x then x else y)"

text \<open>\<^verbatim>\<open>callable(x)\<close>: of the values above only function objects can be called.\<close>

fun callable :: "pyval \<Rightarrow> bool" where
  "callable (VFunc r) = True"
| "callable VNone = False"
| "callable (VBool b) = False"
| "callable (VInt i) = False"
| "callable (VFloat f) = False"
| "callable (VStr s) = False"
| "callable (VDict kvs) = False"

text \<open>A keyword parameter with a default: \<open>None\<close> when the caller omits the argument.\<close>

definition arg_or :: "pyval option \<Rightarrow> pyval \<Rightarrow> pyval" where
  "arg_or a d = (case a of None \<Rightarrow> d | Some v \<Rightarrow> v)"

section \<open>Function objects, the log and the world\<close>

text \<open>
  A handler is a function object: what it computes (\<open>body\<close>, never touched by this module)
  and its \<^verbatim>\<open>matchers\<close> attribute, absent (\<open>None\<close>) until the first decoration. The world
  is the heap of function objects together with the records passed to
  \<^verbatim>\<open>_LOGGER.warning\<close>, oldest first.
\<close>

record func_obj =
  body :: nat
  matchers :: "pyval list option"

datatype log_record = Warning string

record world =
  heap :: "ref \<Rightarrow> func_obj"
  logged :: "log_record list"

datatype error = AttributeError | TypeError | NotModelled

type_synonym 'a proc = "world \<Rightarrow> error + ('a \<times> world)"

definition ret :: "'a \<Rightarrow> 'a proc" where
  "ret x = (\<lambda>w. Inr (x, w))"

text \<open>One statement after another; an exception of the first ends the run.\<close>

definition then_do :: "'a proc \<Rightarrow> ('a \<Rightarrow> 'b proc) \<Rightarrow> 'b proc" where
  "then_do p k = (\<lambda>w. case p w of Inl e \<Rightarrow> Inl e | Inr (x, w') \<Rightarrow> k x w')"

definition set_matchers :: "ref \<Rightarrow> pyval list \<Rightarrow> world \<Rightarrow> world" where
  "set_matchers r ms w = w\<lparr>heap := (heap w)(r := (heap w r)\<lparr>matchers := Some ms\<rparr>)\<rparr>"

text \<open>The matcher list a handler carries; a handler never decorated carries none.\<close>

definition matcher_list :: "world \<Rightarrow> ref \<Rightarrow> pyval list" where
  "matcher_list w r = (case matchers (heap w r) of None \<Rightarrow> [] | Some ms \<Rightarrow> ms)"

text \<open>Modelled from the spec: \<^verbatim>\<open>opsdroid.helper.add_skill_attributes\<close> is imported by
  \<^verbatim>\<open>matchers.py\<close> and is not among the source files. Section 4.1 of the specification
  gives its contract: it guarantees that the handler carries a matcher list (created empty
  when absent, left untouched when present) and returns the same handler. A value that is
  not a function object takes no attribute, which Python reports as an
  \<^verbatim>\<open>AttributeError\<close>.\<close>

definition add_skill_attributes :: "pyval \<Rightarrow> pyval proc" where
  "add_skill_attributes func = (\<lambda>w.
     case func of
       VFunc r \<Rightarrow>
         (case matchers (heap w r) of
            None \<Rightarrow> Inr (func, set_matchers r [] w)
          | Some ms \<Rightarrow> Inr (func, w))
     | VNone \<Rightarrow> Inl AttributeError
     | VBool b \<Rightarrow> Inl AttributeError
     | VInt i \<Rightarrow> Inl AttributeError
     | VFloat f \<Rightarrow> Inl AttributeError
     | VStr s \<Rightarrow> Inl AttributeError
     | VDict kvs \<Rightarrow> Inl AttributeError)"

text \<open>\<^verbatim>\<open>func.matchers.append(d)\<close>: the list is extended in place at its end.\<close>

definition matchers_append :: "pyval \<Rightarrow> pyval \<Rightarrow> unit proc" where
  "matchers_append func d = (\<lambda>w.
     case func of
       VFunc r \<Rightarrow>
         (case matchers (heap w r) of
            None \<Rightarrow> Inl AttributeError
          | Some ms \<Rightarrow> Inr ((), set_matchers r (ms @ [d]) w))
     | VNone \<Rightarrow> Inl AttributeError
     | VBool b \<Rightarrow> Inl AttributeError
     | VInt i \<Rightarrow> Inl AttributeError
     | VFloat f \<Rightarrow> Inl AttributeError
     | VStr s \<Rightarrow> Inl AttributeError
     | VDict kvs \<Rightarrow> Inl AttributeError)"

text \<open>\<^verbatim>\<open>_LOGGER.warning(msg)\<close>.\<close>

definition logger_warning :: "string \<Rightarrow> unit proc" where
  "logger_warning msg = (\<lambda>w. Inr ((), w\<lparr>logged := logged w @ [Warning msg]\<rparr>))"

text \<open>
  Two names of the module come from outside the source files and are parameters of the
  model: the constant \<^verbatim>\<open>opsdroid.const.REGEX_PARSE_SCORE_FACTOR\<close> and the translation
  function \<^verbatim>\<open>_\<close> installed by gettext.
\<close>

record module_env =
  REGEX_PARSE_SCORE_FACTOR :: pyval
  gettext :: "string \<Rightarrow> string"

section \<open>The decorators of matchers.py\<close>

text \<open>A decorator is the inner function \<^verbatim>\<open>matcher(func)\<close> a factory returns.\<close>

type_synonym decorator = "pyval \<Rightarrow> pyval proc"

definition match_event :: "pyval \<Rightarrow> decorator" where
  "match_event event_type = (\<lambda>func.
     then_do (add_skill_attributes func) (\<lambda>func.
     then_do (matchers_append func (VDict [(''event_type'', VDict [(''type'', event_type)])])) (\<lambda>_.
     ret func)))"

definition match_regex ::
  "module_env \<Rightarrow> pyval \<Rightarrow> pyval option \<Rightarrow> pyval option \<Rightarrow> pyval option \<Rightarrow> decorator" where
  "match_regex env regex case_sensitive_arg matching_condition_arg score_factor_arg =
     (let case_sensitive = arg_or case_sensitive_arg (VBool True);
          matching_condition = arg_or matching_condition_arg (VStr ''match'');
          score_factor = arg_or score_factor_arg VNone
      in (\<lambda>func.
        then_do (add_skill_attributes func) (\<lambda>func.
        then_do (matchers_append func
          (VDict [(''regex'', VDict
             [(''expression'', regex),
              (''case_sensitive'', case_sensitive),
              (''matching_condition'', matching_condition),
              (''score_factor'', py_or score_factor (REGEX_PARSE_SCORE_FACTOR env))])])) (\<lambda>_.
        ret func))))"

definition match_parse ::
  "module_env \<Rightarrow> pyval \<Rightarrow> pyval option \<Rightarrow> pyval option \<Rightarrow> pyval option \<Rightarrow> decorator" where
  "match_parse env format_str case_sensitive_arg matching_condition_arg score_factor_arg =
     (let case_sensitive = arg_or case_sensitive_arg (VBool True);
          matching_condition = arg_or matching_condition_arg (VStr ''match'');
          score_factor = arg_or score_factor_arg VNone
      in (\<lambda>func.
        then_do (add_skill_attributes func) (\<lambda>func.
        then_do (matchers_append func
          (VDict [(''parse_format'', VDict
             [(''expression'', format_str),
              (''case_sensitive'', case_sensitive),
              (''matching_condition'', matching_condition),
              (''score_factor'', py_or score_factor (REGEX_PARSE_SCORE_FACTOR env))])])) (\<lambda>_.
        ret func))))"

definition match_dialogflow_action :: "pyval \<Rightarrow> decorator" where
  "match_dialogflow_action action = (\<lambda>func.
     then_do (add_skill_attributes func) (\<lambda>func.
     then_do (matchers_append func (VDict [(''dialogflow_action'', action)])) (\<lambda>_.
     ret func)))"

definition match_dialogflow_intent :: "pyval \<Rightarrow> decorator" where
  "match_dialogflow_intent intent = (\<lambda>func.
     then_do (add_skill_attributes func) (\<lambda>func.
     then_do (matchers_append func (VDict [(''dialogflow_intent'', intent)])) (\<lambda>_.
     ret func)))"

definition match_luisai_intent :: "pyval \<Rightarrow> decorator" where
  "match_luisai_intent intent = (\<lambda>func.
     then_do (add_skill_attributes func) (\<lambda>func.
     then_do (matchers_append func (VDict [(''luisai_intent'', intent)])) (\<lambda>_.
     ret func)))"

definition match_rasanlu :: "pyval \<Rightarrow> decorator" where
  "match_rasanlu intent = (\<lambda>func.
     then_do (add_skill_attributes func) (\<lambda>func.
     then_do (matchers_append func (VDict [(''rasanlu_intent'', intent)])) (\<lambda>_.
     ret func)))"

text \<open>The deprecated factory logs its warning when it is called, before it returns the
  inner function; the inner function itself logs nothing.\<close>

definition match_recastai :: "module_env \<Rightarrow> pyval \<Rightarrow> decorator proc" where
  "match_recastai env intent =
     (let matcher = (\<lambda>func.
        then_do (add_skill_attributes func) (\<lambda>func.
        then_do (matchers_append func (VDict [(''sapcai_intent'', intent)])) (\<lambda>_.
        ret func)))
      in then_do (logger_warning (gettext env
           (''Recast.AI is now called SAP Conversational AI, '' @
            ''this matcher  will stop working in the future. '' @
            ''Use match_sapcai instead.''))) (\<lambda>_.
         ret matcher))"

definition match_sapcai :: "pyval \<Rightarrow> decorator" where
  "match_sapcai intent = (\<lambda>func.
     then_do (add_skill_attributes func) (\<lambda>func.
     then_do (matchers_append func (VDict [(''sapcai_intent'', intent)])) (\<lambda>_.
     ret func)))"

definition match_watson :: "pyval \<Rightarrow> decorator" where
  "match_watson intent = (\<lambda>func.
     then_do (add_skill_attributes func) (\<lambda>func.
     then_do (matchers_append func (VDict [(''watson_intent'', intent)])) (\<lambda>_.
     ret func)))"

definition match_witai :: "pyval \<Rightarrow> decorator" where
  "match_witai intent = (\<lambda>func.
     then_do (add_skill_attributes func) (\<lambda>func.
     then_do (matchers_append func (VDict [(''witai_intent'', intent)])) (\<lambda>_.
     ret func)))"

definition match_crontab :: "pyval \<Rightarrow> pyval option \<Rightarrow> decorator" where
  "match_crontab crontab timezone_arg =
     (let timezone = arg_or timezone_arg VNone
      in (\<lambda>func.
        then_do (add_skill_attributes func) (\<lambda>func.
        then_do (matchers_append func
          (VDict [(''crontab'', crontab), (''timezone'', timezone)])) (\<lambda>_.
        ret func))))"

definition match_webhook :: "pyval \<Rightarrow> decorator" where
  "match_webhook webhook = (\<lambda>func.
     then_do (add_skill_attributes func) (\<lambda>func.
     then_do (matchers_append func (VDict [(''webhook'', webhook)])) (\<lambda>_.
     ret func)))"

text \<open>\<^verbatim>\<open>match_always\<close> returns either the decorated handler (when it is handed a
  callable) or the inner function.\<close>

datatype pyresult = Value pyval | Closure decorator

definition match_always :: "pyval option \<Rightarrow> pyresult proc" where
  "match_always func_arg =
     (let func = arg_or func_arg VNone;
          matcher = (\<lambda>func.
            then_do (add_skill_attributes func) (\<lambda>func.
            then_do (matchers_append func (VDict [(''always'', VBool True)])) (\<lambda>_.
            ret func)))
      in if callable func
         then then_do (matcher func) (\<lambda>f. ret (Value f))
         else ret (Closure matcher))"

section \<open>Decorating a handler\<close>

text \<open>Calling what a factory returned. Only the inner functions of this module are
  modelled as code: calling a value that is no function is a \<^verbatim>\<open>TypeError\<close>, and the
  body of a handler is outside the model (\<open>NotModelled\<close>), as is an inner function used as
  a handler itself.\<close>

fun call :: "pyresult \<Rightarrow> pyval \<Rightarrow> pyval proc" where
  "call (Closure m) f = m f"
| "call (Value v) f = (\<lambda>w. Inl (if callable v then NotModelled else TypeError))"

text \<open>
  The ways the module can decorate a function: one per factory, with the factory's
  arguments, and \<^verbatim>\<open>match_always\<close> in both of its forms (\<open>Always\<close> is the bare
  \<^verbatim>\<open>@match_always\<close>, \<open>AlwaysCalled\<close> is \<^verbatim>\<open>@match_always()\<close>).
\<close>

datatype decoration =
    Event pyval
  | Regex pyval "pyval option" "pyval option" "pyval option"
  | ParseFormat pyval "pyval option" "pyval option" "pyval option"
  | DialogflowAction pyval
  | DialogflowIntent pyval
  | LuisaiIntent pyval
  | Rasanlu pyval
  | Recastai pyval
  | Sapcai pyval
  | Watson pyval
  | Witai pyval
  | Crontab pyval "pyval option"
  | Webhook pyval
  | Always
  | AlwaysCalled

text \<open>The statement \<^verbatim>\<open>@e\<close> above \<^verbatim>\<open>def f\<close>: the decorator expression is evaluated,
  then its value is applied to the function; what comes back is bound to the name.\<close>

fun decorate :: "module_env \<Rightarrow> decoration \<Rightarrow> pyval \<Rightarrow> pyresult proc" where
  "decorate env (Event e) f = then_do (match_event e f) (\<lambda>g. ret (Value g))"
| "decorate env (Regex x cs mc sf) f = then_do (match_regex env x cs mc sf f) (\<lambda>g. ret (Value g))"
| "decorate env (ParseFormat x cs mc sf) f =
     then_do (match_parse env x cs mc sf f) (\<lambda>g. ret (Value g))"
| "decorate env (DialogflowAction a) f =
     then_do (match_dialogflow_action a f) (\<lambda>g. ret (Value g))"
| "decorate env (DialogflowIntent i) f =
     then_do (match_dialogflow_intent i f) (\<lambda>g. ret (Value g))"
| "decorate env (LuisaiIntent i) f = then_do (match_luisai_intent i f) (\<lambda>g. ret (Value g))"
| "decorate env (Rasanlu i) f = then_do (match_rasanlu i f) (\<lambda>g. ret (Value g))"
| "decorate env (Recastai i) f =
     then_do (match_recastai env i) (\<lambda>m. then_do (m f) (\<lambda>g. ret (Value g)))"
| "decorate env (Sapcai i) f = then_do (match_sapcai i f) (\<lambda>g. ret (Value g))"
| "decorate env (Watson i) f = then_do (match_watson i f) (\<lambda>g. ret (Value g))"
| "decorate env (Witai i) f = then_do (match_witai i f) (\<lambda>g. ret (Value g))"
| "decorate env (Crontab c tz) f = then_do (match_crontab c tz f) (\<lambda>g. ret (Value g))"
| "decorate env (Webhook h) f = then_do (match_webhook h f) (\<lambda>g. ret (Value g))"
| "decorate env Always f = match_always (Some f)"
| "decorate env AlwaysCalled f =
     then_do (match_always None) (\<lambda>res. then_do (call res f) (\<lambda>g. ret (Value g)))"

text \<open>Decorators stacked on one function, the first of the list applied first (the one
  written nearest to the \<^verbatim>\<open>def\<close>); each is handed what the one before returned.\<close>

fun stack :: "module_env \<Rightarrow> decoration list \<Rightarrow> pyval \<Rightarrow> pyresult proc" where
  "stack env [] f = ret (Value f)"
| "stack env (c # cs) f =
     then_do (decorate env c f) (\<lambda>res.
       case res of
         Value g \<Rightarrow> stack env cs g
       | Closure m \<Rightarrow> (\<lambda>w. Inl NotModelled))"

text \<open>A world in which no function has been decorated and nothing has been logged; the
  descriptors one decoration leaves on handler \<open>0\<close> of it, and the records it logs there.\<close>

definition fresh_world :: world where
  "fresh_world = \<lparr>heap = (\<lambda>r. \<lparr>body = r, matchers = None\<rparr>), logged = []\<rparr>"

definition attached :: "module_env \<Rightarrow> decoration \<Rightarrow> pyval list" where
  "attached env c =
     (case decorate env c (VFunc 0) fresh_world of
        Inl e \<Rightarrow> []
      | Inr (b, w) \<Rightarrow> matcher_list w 0)"

definition warned :: "module_env \<Rightarrow> decoration \<Rightarrow> log_record list" where
  "warned env c =
     (case decorate env c (VFunc 0) fresh_world of
        Inl e \<Rightarrow> []
      | Inr (b, w) \<Rightarrow> logged w)"

text \<open>A concrete module environment: the default score factor \<open>0.6\<close> and no
  translation of messages.\<close>

definition env0 :: module_env where
  "env0 = \<lparr>REGEX_PARSE_SCORE_FACTOR = VFloat (Finite (3 / 5)), gettext = (\<lambda>s. s)\<rparr>"

section \<open>Auxiliary facts\<close>

lemma matcher_list_set_matchers:
  "matcher_list (set_matchers r ms w) r' = (if r' = r then ms else matcher_list w r')"
  by (simp add: matcher_list_def set_matchers_def)

lemma logged_set_matchers: "logged (set_matchers r ms w) = logged w"
  by (simp add: set_matchers_def)

lemma heap_set_matchers:
  "heap (set_matchers r ms w) r' = (if r' = r then (heap w r)\<lparr>matchers := Some ms\<rparr> else heap w r')"
  by (simp add: set_matchers_def)

lemma set_matchers_twice: "set_matchers r ms (set_matchers r ms' w) = set_matchers r ms w"
  by (simp add: set_matchers_def)

lemma ret_apply: "ret x w = Inr (x, w)"
  by (simp add: ret_def)

lemma then_do_Inr: "p w = Inr (x, w') \<Longrightarrow> then_do p k w = k x w'"
  by (simp add: then_do_def)

lemma attach_step:
  "then_do (add_skill_attributes (VFunc r))
     (\<lambda>func. then_do (matchers_append func d) (\<lambda>_. ret func)) w
   = Inr (VFunc r, set_matchers r (matcher_list w r @ [d]) w)"
proof (cases "matchers (heap w r)")
  case None
  then show ?thesis
    by (simp add: then_do_def add_skill_attributes_def matchers_append_def ret_def
        matcher_list_def heap_set_matchers set_matchers_twice)
next
  case (Some ms)
  then show ?thesis
    by (simp add: then_do_def add_skill_attributes_def matchers_append_def ret_def
        matcher_list_def)
qed

lemma match_event_apply:
  "match_event e (VFunc r) w =
   Inr (VFunc r, set_matchers r (matcher_list w r @ [VDict [(''event_type'', VDict [(''type'', e)])]]) w)"
  by (simp add: match_event_def attach_step)


lemma match_regex_apply:
  "match_regex env x cs mc sf (VFunc r) w =
   Inr (VFunc r, set_matchers r (matcher_list w r @
     [VDict [(''regex'', VDict
        [(''expression'', x),
         (''case_sensitive'', arg_or cs (VBool True)),
         (''matching_condition'', arg_or mc (VStr ''match'')),
         (''score_factor'', py_or (arg_or sf VNone) (REGEX_PARSE_SCORE_FACTOR env))])]]) w)"
  by (simp add: match_regex_def attach_step)

lemma match_parse_apply:
  "match_parse env x cs mc sf (VFunc r) w =
   Inr (VFunc r, set_matchers r (matcher_list w r @
     [VDict [(''parse_format'', VDict
        [(''expression'', x),
         (''case_sensitive'', arg_or cs (VBool True)),
         (''matching_condition'', arg_or mc (VStr ''match'')),
         (''score_factor'', py_or (arg_or sf VNone) (REGEX_PARSE_SCORE_FACTOR env))])]]) w)"
  by (simp add: match_parse_def attach_step)

lemma match_dialogflow_action_apply:
  "match_dialogflow_action a (VFunc r) w =
   Inr (VFunc r, set_matchers r (matcher_list w r @ [VDict [(''dialogflow_action'', a)]]) w)"
  by (simp add: match_dialogflow_action_def attach_step)

lemma match_dialogflow_intent_apply:
  "match_dialogflow_intent i (VFunc r) w =
   Inr (VFunc r, set_matchers r (matcher_list w r @ [VDict [(''dialogflow_intent'', i)]]) w)"
  by (simp add: match_dialogflow_intent_def attach_step)

lemma match_luisai_intent_apply:
  "match_luisai_intent i (VFunc r) w =
   Inr (VFunc r, set_matchers r (matcher_list w r @ [VDict [(''luisai_intent'', i)]]) w)"
  by (simp add: match_luisai_intent_def attach_step)

lemma match_rasanlu_apply:
  "match_rasanlu i (VFunc r) w =
   Inr (VFunc r, set_matchers r (matcher_list w r @ [VDict [(''rasanlu_intent'', i)]]) w)"
  by (simp add: match_rasanlu_def attach_step)

lemma match_sapcai_apply:
  "match_sapcai i (VFunc r) w =
   Inr (VFunc r, set_matchers r (matcher_list w r @ [VDict [(''sapcai_intent'', i)]]) w)"
  by (simp add: match_sapcai_def attach_step)

lemma match_watson_apply:
  "match_watson i (VFunc r) w =
   Inr (VFunc r, set_matchers r (matcher_list w r @ [VDict [(''watson_intent'', i)]]) w)"
  by (simp add: match_watson_def attach_step)

lemma match_witai_apply:
  "match_witai i (VFunc r) w =
   Inr (VFunc r, set_matchers r (matcher_list w r @ [VDict [(''witai_intent'', i)]]) w)"
  by (simp add: match_witai_def attach_step)

lemma match_crontab_apply:
  "match_crontab c tz (VFunc r) w =
   Inr (VFunc r, set_matchers r (matcher_list w r @
     [VDict [(''crontab'', c), (''timezone'', arg_or tz VNone)]]) w)"
  by (simp add: match_crontab_def attach_step)

lemma match_webhook_apply:
  "match_webhook h (VFunc r) w =
   Inr (VFunc r, set_matchers r (matcher_list w r @ [VDict [(''webhook'', h)]]) w)"
  by (simp add: match_webhook_def attach_step)

lemma match_recastai_call:
  "match_recastai env i w =
   Inr (match_sapcai i, w\<lparr>logged := logged w @ [Warning (gettext env
     ''Recast.AI is now called SAP Conversational AI, this matcher  will stop working in the future. Use match_sapcai instead.'')]\<rparr>)"
  by (simp add: match_recastai_def match_sapcai_def logger_warning_def then_do_def ret_def)

lemma match_always_bare:
  "match_always (Some (VFunc r)) w =
   Inr (Value (VFunc r), set_matchers r (matcher_list w r @ [VDict [(''always'', VBool True)]]) w)"
  by (simp add: match_always_def arg_or_def then_do_Inr [OF attach_step] ret_apply)

lemma match_always_called:
  "\<exists>m. match_always None w = Inr (Closure m, w) \<and>
     (\<forall>r w'. m (VFunc r) w' =
        Inr (VFunc r, set_matchers r (matcher_list w' r @ [VDict [(''always'', VBool True)]]) w'))"
  by (simp add: match_always_def arg_or_def attach_step ret_apply)


lemma match_always_none:
  "match_always None w =
   Inr (Closure (\<lambda>func.
     then_do (add_skill_attributes func) (\<lambda>func.
     then_do (matchers_append func (VDict [(''always'', VBool True)])) (\<lambda>_.
     ret func))), w)"
  by (simp add: match_always_def arg_or_def ret_apply)

lemma matcher_list_logged [simp]: "matcher_list (w\<lparr>logged := l\<rparr>) r = matcher_list w r"
  by (simp add: matcher_list_def)

lemma matcher_list_fresh [simp]: "matcher_list fresh_world r = []"
  by (simp add: matcher_list_def fresh_world_def)

lemma logged_fresh [simp]: "logged fresh_world = []"
  by (simp add: fresh_world_def)

lemmas apply_rules =
  then_do_Inr [OF match_event_apply] then_do_Inr [OF match_regex_apply]
  then_do_Inr [OF match_parse_apply] then_do_Inr [OF match_dialogflow_action_apply]
  then_do_Inr [OF match_dialogflow_intent_apply] then_do_Inr [OF match_luisai_intent_apply]
  then_do_Inr [OF match_rasanlu_apply] then_do_Inr [OF match_recastai_call]
  then_do_Inr [OF match_sapcai_apply] then_do_Inr [OF match_watson_apply]
  then_do_Inr [OF match_witai_apply] then_do_Inr [OF match_crontab_apply]
  then_do_Inr [OF match_webhook_apply] then_do_Inr [OF match_always_none]
  then_do_Inr [OF attach_step] match_always_bare ret_apply
  matcher_list_set_matchers logged_set_matchers

lemma decorate_result:
  "decorate env c (VFunc r) w =
   Inr (Value (VFunc r),
        set_matchers r (matcher_list w r @ attached env c) (w\<lparr>logged := logged w @ warned env c\<rparr>))"
  by (cases c) (simp_all add: attached_def warned_def apply_rules)

lemma attached_single: "length (attached env c) = 1"
  by (cases c) (simp_all add: attached_def apply_rules)


lemma heap_logged_set_matchers:
  "heap (set_matchers r ms (w\<lparr>logged := l\<rparr>)) = (heap w)(r := (heap w r)\<lparr>matchers := Some ms\<rparr>)"
  by (simp add: set_matchers_def)

lemma stack_result:
  "\<exists>w'. stack env cs (VFunc r) w = Inr (Value (VFunc r), w') \<and>
     matcher_list w' r = matcher_list w r @ concat (map (attached env) cs)"
proof (induction cs arbitrary: w)
  case Nil
  show ?case by (simp add: ret_apply)
next
  case (Cons c cs)
  let ?w1 = "set_matchers r (matcher_list w r @ attached env c)
               (w\<lparr>logged := logged w @ warned env c\<rparr>)"
  from Cons.IH [of ?w1] obtain w' where
    run: "stack env cs (VFunc r) ?w1 = Inr (Value (VFunc r), w')" and
    lst: "matcher_list w' r = matcher_list ?w1 r @ concat (map (attached env) cs)"
    by blast
  have "stack env (c # cs) (VFunc r) w = Inr (Value (VFunc r), w')"
    by (simp add: then_do_Inr [OF decorate_result] run)
  moreover have "matcher_list w' r = matcher_list w r @ concat (map (attached env) (c # cs))"
    using lst by (simp add: matcher_list_set_matchers)
  ultimately show ?case by blast
qed

lemma concat_singletons_length:
  "(\<And>x. x \<in> set xs \<Longrightarrow> length (f x) = 1) \<Longrightarrow> length (concat (map f xs)) = length xs"
  by (induction xs) auto

lemma concat_singletons_nth:
  "(\<And>x. length (f x) = Suc 0) \<Longrightarrow> i < length xs \<Longrightarrow> f (xs ! i) = [concat (map f xs) ! i]"
proof (induction xs arbitrary: i)
  case Nil
  then show ?case by simp
next
  case (Cons x xs)
  obtain d where d: "f x = [d]"
    using Cons.prems(1) [of x] by (cases "f x") auto
  show ?case
  proof (cases i)
    case 0
    then show ?thesis by (simp add: d)
  next
    case (Suc j)
    then show ?thesis using Cons by (simp add: d)
  qed
qed

lemma attached_crontab:
  "attached env (Crontab c tz) = [VDict [(''crontab'', c), (''timezone'', arg_or tz VNone)]]"
  by (simp add: attached_def apply_rules)

lemma attached_webhook: "attached env (Webhook h) = [VDict [(''webhook'', h)]]"
  by (simp add: attached_def apply_rules)

lemma py_or_truthy: "truthy x \<Longrightarrow> py_or x y = x"
  by (simp add: py_or_def)

lemma py_or_falsy: "\<not> truthy x \<Longrightarrow> py_or x y = y"
  by (simp add: py_or_def)

section \<open>The claims\<close>

text \<open>
  C1. For every decorator kind of the module and every handler, applying the decorator
  returns the same handler object and appends exactly one descriptor to the handler's matcher
  list; the descriptors already there stay, and the handler's body is the one it had.
\<close>

theorem decorator_returns_same_handler:
  "\<exists>d w'. decorate env c (VFunc r) w = Inr (Value (VFunc r), w') \<and>
     matcher_list w' r = matcher_list w r @ [d] \<and>
     body (heap w' r) = body (heap w r)"
proof -
  obtain d where d: "attached env c = [d]"
    using attached_single [of env c] by (cases "attached env c") auto
  show ?thesis
    by (simp add: decorate_result d matcher_list_set_matchers heap_set_matchers)
qed

text \<open>
  C2. A sequence of N decorations stacked on one handler that carried no descriptor leaves a
  matcher list of length N whose i-th descriptor is the one the i-th decoration attaches
  (first applied first); \<^verbatim>\<open>match_crontab\<close> followed by \<^verbatim>\<open>match_webhook\<close> leaves a list of
  length 2 with the crontab descriptor first and the webhook descriptor second.
\<close>

theorem stacking_order:
  assumes "matcher_list w r = []"
  shows "(\<exists>w'. stack env cs (VFunc r) w = Inr (Value (VFunc r), w') \<and>
       length (matcher_list w' r) = length cs \<and>
       matcher_list w' r = concat (map (attached env) cs) \<and>
       (\<forall>i<length cs. attached env (cs ! i) = [matcher_list w' r ! i])) \<and>
     (\<exists>w'. stack env [Crontab c tz, Webhook h] (VFunc r) w = Inr (Value (VFunc r), w') \<and>
       matcher_list w' r =
         [VDict [(''crontab'', c), (''timezone'', arg_or tz VNone)], VDict [(''webhook'', h)]])"
proof
  obtain w' where run: "stack env cs (VFunc r) w = Inr (Value (VFunc r), w')"
    and lst: "matcher_list w' r = matcher_list w r @ concat (map (attached env) cs)"
    using stack_result [of env cs r w] by blast
  have eq: "matcher_list w' r = concat (map (attached env) cs)"
    using lst assms by simp
  have len: "length (matcher_list w' r) = length cs"
    unfolding eq by (rule concat_singletons_length) (rule attached_single)
  have nth: "\<forall>i<length cs. attached env (cs ! i) = [matcher_list w' r ! i]"
    unfolding eq using concat_singletons_nth [of "attached env" _ cs]
    by (simp add: attached_single)
  show "\<exists>w'. stack env cs (VFunc r) w = Inr (Value (VFunc r), w') \<and>
     length (matcher_list w' r) = length cs \<and>
     matcher_list w' r = concat (map (attached env) cs) \<and>
     (\<forall>i<length cs. attached env (cs ! i) = [matcher_list w' r ! i])"
    using run eq len nth by blast
next
  show "\<exists>w'. stack env [Crontab c tz, Webhook h] (VFunc r) w = Inr (Value (VFunc r), w') \<and>
     matcher_list w' r =
       [VDict [(''crontab'', c), (''timezone'', arg_or tz VNone)], VDict [(''webhook'', h)]]"
    using stack_result [of env "[Crontab c tz, Webhook h]" r w] assms
    by (simp add: attached_crontab attached_webhook)
qed

theorem stacking_order_witness:
  "matcher_list fresh_world 7 = [] \<and>
   (\<exists>w'. stack env0 [Always, Event (VStr ''message''), Webhook (VStr ''deploy'')] (VFunc 7)
           fresh_world = Inr (Value (VFunc 7), w') \<and>
      matcher_list w' 7 =
        [VDict [(''always'', VBool True)],
         VDict [(''event_type'', VDict [(''type'', VStr ''message'')])],
         VDict [(''webhook'', VStr ''deploy'')]])"
proof -
  let ?cs = "[Always, Event (VStr ''message''), Webhook (VStr ''deploy'')]"
  have h: "matcher_list fresh_world 7 = []" by simp
  have a: "concat (map (attached env0) ?cs) =
        [VDict [(''always'', VBool True)],
         VDict [(''event_type'', VDict [(''type'', VStr ''message'')])],
         VDict [(''webhook'', VStr ''deploy'')]]"
    by (simp add: attached_def apply_rules)
  from stacking_order [OF h, where env = env0 and cs = ?cs and c = VNone and tz = None
      and h = VNone]
  obtain w' where run: "stack env0 ?cs (VFunc 7) fresh_world = Inr (Value (VFunc 7), w')"
    and eq: "matcher_list w' 7 = concat (map (attached env0) ?cs)"
    by blast
  from h run eq [unfolded a] show ?thesis by blast
qed

text \<open>
  C10. Every decoration is append-only and determined by the factory's arguments: there is
  one descriptor \<open>d\<close>, the same for every handler and every world, such that the list after
  the decoration is the list before it followed by \<open>d\<close>; the descriptors already present keep
  their places, and no other function object of the heap changes.
\<close>

theorem decoration_append_only:
  "\<exists>d. \<forall>r w. \<exists>w'. decorate env c (VFunc r) w = Inr (Value (VFunc r), w') \<and>
     matcher_list w' r = matcher_list w r @ [d] \<and>
     take (length (matcher_list w r)) (matcher_list w' r) = matcher_list w r \<and>
     heap w' = (heap w)(r := heap w' r)"
proof -
  obtain d where d: "attached env c = [d]"
    using attached_single [of env c] by (cases "attached env c") auto
  show ?thesis
    by (rule exI [of _ d])
      (simp add: decorate_result d matcher_list_set_matchers heap_logged_set_matchers)
qed

text \<open>
  C3. For \<^verbatim>\<open>match_regex\<close> and \<^verbatim>\<open>match_parse\<close>: with only the expression supplied the
  descriptor has \<^verbatim>\<open>case_sensitive=True\<close>, \<^verbatim>\<open>matching_condition="match"\<close> and the module
  default as score factor; a supplied score factor that is true as a truth value is stored as
  given; one that is false (such as \<open>0\<close> or \<open>0.0\<close>) is replaced by the default, and the
  decorator built is the very one built with no score factor at all.
\<close>

theorem regex_parse_score_factor_default:
  "match_regex env x None None None (VFunc r) w =
     Inr (VFunc r, set_matchers r (matcher_list w r @
       [VDict [(''regex'', VDict
          [(''expression'', x),
           (''case_sensitive'', VBool True),
           (''matching_condition'', VStr ''match''),
           (''score_factor'', REGEX_PARSE_SCORE_FACTOR env)])]]) w) \<and>
   match_parse env x None None None (VFunc r) w =
     Inr (VFunc r, set_matchers r (matcher_list w r @
       [VDict [(''parse_format'', VDict
          [(''expression'', x),
           (''case_sensitive'', VBool True),
           (''matching_condition'', VStr ''match''),
           (''score_factor'', REGEX_PARSE_SCORE_FACTOR env)])]]) w) \<and>
   (truthy given \<longrightarrow>
      match_regex env x cs mc (Some given) (VFunc r) w =
        Inr (VFunc r, set_matchers r (matcher_list w r @
          [VDict [(''regex'', VDict
             [(''expression'', x),
              (''case_sensitive'', arg_or cs (VBool True)),
              (''matching_condition'', arg_or mc (VStr ''match'')),
              (''score_factor'', given)])]]) w) \<and>
      match_parse env x cs mc (Some given) (VFunc r) w =
        Inr (VFunc r, set_matchers r (matcher_list w r @
          [VDict [(''parse_format'', VDict
             [(''expression'', x),
              (''case_sensitive'', arg_or cs (VBool True)),
              (''matching_condition'', arg_or mc (VStr ''match'')),
              (''score_factor'', given)])]]) w)) \<and>
   (\<not> truthy falsy \<longrightarrow>
      match_regex env x cs mc (Some falsy) = match_regex env x cs mc None \<and>
      match_parse env x cs mc (Some falsy) = match_parse env x cs mc None \<and>
      match_regex env x cs mc (Some falsy) (VFunc r) w =
        Inr (VFunc r, set_matchers r (matcher_list w r @
          [VDict [(''regex'', VDict
             [(''expression'', x),
              (''case_sensitive'', arg_or cs (VBool True)),
              (''matching_condition'', arg_or mc (VStr ''match'')),
              (''score_factor'', REGEX_PARSE_SCORE_FACTOR env)])]]) w) \<and>
      match_parse env x cs mc (Some falsy) (VFunc r) w =
        Inr (VFunc r, set_matchers r (matcher_list w r @
          [VDict [(''parse_format'', VDict
             [(''expression'', x),
              (''case_sensitive'', arg_or cs (VBool True)),
              (''matching_condition'', arg_or mc (VStr ''match'')),
              (''score_factor'', REGEX_PARSE_SCORE_FACTOR env)])]]) w)) \<and>
   match_regex env x cs mc (Some (VInt 0)) = match_regex env x cs mc None \<and>
   match_parse env x cs mc (Some (VInt 0)) = match_parse env x cs mc None \<and>
   match_regex env x cs mc (Some (VFloat (Finite 0))) = match_regex env x cs mc None \<and>
   match_parse env x cs mc (Some (VFloat (Finite 0))) = match_parse env x cs mc None"
proof -
  have unset: "py_or VNone (REGEX_PARSE_SCORE_FACTOR env) = REGEX_PARSE_SCORE_FACTOR env"
    by (simp add: py_or_def)
  have eq_regex: "match_regex env x cs mc (Some v) = match_regex env x cs mc None"
    if "\<not> truthy v" for v
    using that by (simp add: match_regex_def arg_or_def py_or_def)
  have eq_parse: "match_parse env x cs mc (Some v) = match_parse env x cs mc None"
    if "\<not> truthy v" for v
    using that by (simp add: match_parse_def arg_or_def py_or_def)
  have d1: "match_regex env x None None None (VFunc r) w =
     Inr (VFunc r, set_matchers r (matcher_list w r @
       [VDict [(''regex'', VDict
          [(''expression'', x),
           (''case_sensitive'', VBool True),
           (''matching_condition'', VStr ''match''),
           (''score_factor'', REGEX_PARSE_SCORE_FACTOR env)])]]) w)"
    by (simp add: match_regex_apply arg_or_def unset)
  have d2: "match_parse env x None None None (VFunc r) w =
     Inr (VFunc r, set_matchers r (matcher_list w r @
       [VDict [(''parse_format'', VDict
          [(''expression'', x),
           (''case_sensitive'', VBool True),
           (''matching_condition'', VStr ''match''),
           (''score_factor'', REGEX_PARSE_SCORE_FACTOR env)])]]) w)"
    by (simp add: match_parse_apply arg_or_def unset)
  have t: "truthy given \<longrightarrow>
      match_regex env x cs mc (Some given) (VFunc r) w =
        Inr (VFunc r, set_matchers r (matcher_list w r @
          [VDict [(''regex'', VDict
             [(''expression'', x),
              (''case_sensitive'', arg_or cs (VBool True)),
              (''matching_condition'', arg_or mc (VStr ''match'')),
              (''score_factor'', given)])]]) w) \<and>
      match_parse env x cs mc (Some given) (VFunc r) w =
        Inr (VFunc r, set_matchers r (matcher_list w r @
          [VDict [(''parse_format'', VDict
             [(''expression'', x),
              (''case_sensitive'', arg_or cs (VBool True)),
              (''matching_condition'', arg_or mc (VStr ''match'')),
              (''score_factor'', given)])]]) w)"
    by (simp add: match_regex_apply match_parse_apply py_or_truthy arg_or_def)
  have f: "\<not> truthy falsy \<longrightarrow>
      match_regex env x cs mc (Some falsy) = match_regex env x cs mc None \<and>
      match_parse env x cs mc (Some falsy) = match_parse env x cs mc None \<and>
      match_regex env x cs mc (Some falsy) (VFunc r) w =
        Inr (VFunc r, set_matchers r (matcher_list w r @
          [VDict [(''regex'', VDict
             [(''expression'', x),
              (''case_sensitive'', arg_or cs (VBool True)),
              (''matching_condition'', arg_or mc (VStr ''match'')),
              (''score_factor'', REGEX_PARSE_SCORE_FACTOR env)])]]) w) \<and>
      match_parse env x cs mc (Some falsy) (VFunc r) w =
        Inr (VFunc r, set_matchers r (matcher_list w r @
          [VDict [(''parse_format'', VDict
             [(''expression'', x),
              (''case_sensitive'', arg_or cs (VBool True)),
              (''matching_condition'', arg_or mc (VStr ''match'')),
              (''score_factor'', REGEX_PARSE_SCORE_FACTOR env)])]]) w)"
    by (simp add: eq_regex eq_parse match_regex_apply match_parse_apply py_or_falsy arg_or_def)
  have z: "match_regex env x cs mc (Some (VInt 0)) = match_regex env x cs mc None"
    "match_parse env x cs mc (Some (VInt 0)) = match_parse env x cs mc None"
    "match_regex env x cs mc (Some (VFloat (Finite 0))) = match_regex env x cs mc None"
    "match_parse env x cs mc (Some (VFloat (Finite 0))) = match_parse env x cs mc None"
    by (simp_all add: eq_regex eq_parse)
  from d1 d2 t f z show ?thesis by (intro conjI)
qed

theorem regex_parse_score_factor_default_witness:
  "truthy (VFloat (Finite (5 / 2))) \<and> \<not> truthy (VInt 0) \<and>
   attached env0 (Regex (VStr ''hi'') None None None) =
     [VDict [(''regex'', VDict
        [(''expression'', VStr ''hi''),
         (''case_sensitive'', VBool True),
         (''matching_condition'', VStr ''match''),
         (''score_factor'', VFloat (Finite (3 / 5)))])]] \<and>
   attached env0 (Regex (VStr ''hi'') None None (Some (VFloat (Finite (5 / 2))))) =
     [VDict [(''regex'', VDict
        [(''expression'', VStr ''hi''),
         (''case_sensitive'', VBool True),
         (''matching_condition'', VStr ''match''),
         (''score_factor'', VFloat (Finite (5 / 2)))])]] \<and>
   attached env0 (ParseFormat (VStr ''hi'') None None (Some (VInt 0))) =
     [VDict [(''parse_format'', VDict
        [(''expression'', VStr ''hi''),
         (''case_sensitive'', VBool True),
         (''matching_condition'', VStr ''match''),
         (''score_factor'', VFloat (Finite (3 / 5)))])]]"
proof -
  have t: "truthy (VFloat (Finite (5 / 2)))" by simp
  have f: "\<not> truthy (VInt 0)" by simp
  note inst = regex_parse_score_factor_default [where env = env0 and x = "VStr ''hi''"
      and r = 0 and w = fresh_world and cs = None and mc = None
      and given = "VFloat (Finite (5 / 2))" and falsy = "VInt 0"]
  have a: "match_regex env0 (VStr ''hi'') None None None (VFunc 0) fresh_world =
     Inr (VFunc 0, set_matchers 0 (matcher_list fresh_world 0 @
       [VDict [(''regex'', VDict
          [(''expression'', VStr ''hi''),
           (''case_sensitive'', VBool True),
           (''matching_condition'', VStr ''match''),
           (''score_factor'', REGEX_PARSE_SCORE_FACTOR env0)])]]) fresh_world)"
    using inst by (rule conjunct1)
  have b: "match_regex env0 (VStr ''hi'') None None (Some (VFloat (Finite (5 / 2)))) (VFunc 0)
       fresh_world =
     Inr (VFunc 0, set_matchers 0 (matcher_list fresh_world 0 @
       [VDict [(''regex'', VDict
          [(''expression'', VStr ''hi''),
           (''case_sensitive'', arg_or None (VBool True)),
           (''matching_condition'', arg_or None (VStr ''match'')),
           (''score_factor'', VFloat (Finite (5 / 2)))])]]) fresh_world)"
    using inst t by blast
  have c: "match_parse env0 (VStr ''hi'') None None (Some (VInt 0)) (VFunc 0) fresh_world =
     Inr (VFunc 0, set_matchers 0 (matcher_list fresh_world 0 @
       [VDict [(''parse_format'', VDict
          [(''expression'', VStr ''hi''),
           (''case_sensitive'', arg_or None (VBool True)),
           (''matching_condition'', arg_or None (VStr ''match'')),
           (''score_factor'', REGEX_PARSE_SCORE_FACTOR env0)])]]) fresh_world)"
    using inst f by blast
  have A: "attached env0 (Regex (VStr ''hi'') None None None) =
     [VDict [(''regex'', VDict
        [(''expression'', VStr ''hi''),
         (''case_sensitive'', VBool True),
         (''matching_condition'', VStr ''match''),
         (''score_factor'', REGEX_PARSE_SCORE_FACTOR env0)])]]"
    by (simp add: attached_def then_do_def a ret_apply matcher_list_set_matchers)
  have B: "attached env0 (Regex (VStr ''hi'') None None (Some (VFloat (Finite (5 / 2))))) =
     [VDict [(''regex'', VDict
        [(''expression'', VStr ''hi''),
         (''case_sensitive'', arg_or None (VBool True)),
         (''matching_condition'', arg_or None (VStr ''match'')),
         (''score_factor'', VFloat (Finite (5 / 2)))])]]"
    by (simp add: attached_def then_do_def b ret_apply matcher_list_set_matchers)
  have C: "attached env0 (ParseFormat (VStr ''hi'') None None (Some (VInt 0))) =
     [VDict [(''parse_format'', VDict
        [(''expression'', VStr ''hi''),
         (''case_sensitive'', arg_or None (VBool True)),
         (''matching_condition'', arg_or None (VStr ''match'')),
         (''score_factor'', REGEX_PARSE_SCORE_FACTOR env0)])]]"
    by (simp add: attached_def then_do_def c ret_apply matcher_list_set_matchers)
  show ?thesis
    unfolding A B C by (simp add: arg_or_def env0_def)
qed

text \<open>
  C4. \<^verbatim>\<open>match_always\<close> handed the handler directly and \<^verbatim>\<open>match_always()\<close> applied to the
  handler give equal results: the same handler comes back, in the same world, carrying one
  more descriptor, \<^verbatim>\<open>{"always": True}\<close>.
\<close>

theorem match_always_bare_and_called_agree:
  "\<exists>m. match_always None w = Inr (Closure m, w) \<and>
     m (VFunc r) w =
       Inr (VFunc r,
            set_matchers r (matcher_list w r @ [VDict [(''always'', VBool True)]]) w) \<and>
     match_always (Some (VFunc r)) w =
       Inr (Value (VFunc r),
            set_matchers r (matcher_list w r @ [VDict [(''always'', VBool True)]]) w) \<and>
     decorate env Always (VFunc r) w = decorate env AlwaysCalled (VFunc r) w"
proof -
  let ?m = "\<lambda>func.
     then_do (add_skill_attributes func) (\<lambda>func.
     then_do (matchers_append func (VDict [(''always'', VBool True)])) (\<lambda>_.
     ret func))"
  have "match_always None w = Inr (Closure ?m, w)"
    by (rule match_always_none)
  moreover have "?m (VFunc r) w =
       Inr (VFunc r,
            set_matchers r (matcher_list w r @ [VDict [(''always'', VBool True)]]) w)"
    by (rule attach_step)
  moreover have "decorate env Always (VFunc r) w = decorate env AlwaysCalled (VFunc r) w"
    by (simp add: apply_rules)
  ultimately show ?thesis
    using match_always_bare [of r w] by blast
qed

text \<open>
  C5. For every intent the decorator \<^verbatim>\<open>match_recastai(intent)\<close> returns is the decorator
  \<^verbatim>\<open>match_sapcai(intent)\<close>, and the descriptor both attach has the kind tag
  \<^verbatim>\<open>sapcai_intent\<close> and the intent as its value.
\<close>

theorem recastai_descriptor_is_sapcai:
  "(\<exists>w'. match_recastai env intent w = Inr (match_sapcai intent, w')) \<and>
   match_sapcai intent (VFunc r) w1 =
     Inr (VFunc r, set_matchers r (matcher_list w1 r @ [VDict [(''sapcai_intent'', intent)]]) w1) \<and>
   attached env (Recastai intent) = [VDict [(''sapcai_intent'', intent)]] \<and>
   attached env (Sapcai intent) = [VDict [(''sapcai_intent'', intent)]]"
proof -
  have "attached env (Recastai intent) = [VDict [(''sapcai_intent'', intent)]]"
    by (simp add: attached_def apply_rules)
  moreover have "attached env (Sapcai intent) = [VDict [(''sapcai_intent'', intent)]]"
    by (simp add: attached_def apply_rules)
  ultimately show ?thesis
    by (simp add: match_recastai_call match_sapcai_apply)
qed

text \<open>
  C6, as the code has it. \<^verbatim>\<open>match_recastai\<close> logs its deprecation warning once each time
  the factory is called, at that moment; applying the decorator it returned, which is
  \<^verbatim>\<open>match_sapcai\<close>'s, logs nothing and attaches the \<^verbatim>\<open>sapcai_intent\<close> descriptor. One use
  of \<^verbatim>\<open>@match_recastai(intent)\<close> therefore logs exactly one warning.
\<close>

theorem recastai_warns_once_per_factory_call:
  "match_recastai env intent w =
     Inr (match_sapcai intent,
          w\<lparr>logged := logged w @ [Warning (gettext env
            ''Recast.AI is now called SAP Conversational AI, this matcher  will stop working in the future. Use match_sapcai instead.'')]\<rparr>) \<and>
   (\<exists>w'. match_sapcai intent (VFunc r) w1 = Inr (VFunc r, w') \<and>
      logged w' = logged w1 \<and>
      matcher_list w' r = matcher_list w1 r @ [VDict [(''sapcai_intent'', intent)]]) \<and>
   (\<exists>w'. decorate env (Recastai intent) (VFunc r) w = Inr (Value (VFunc r), w') \<and>
      length (logged w') = length (logged w) + 1)"
proof -
  have "\<exists>w'. decorate env (Recastai intent) (VFunc r) w = Inr (Value (VFunc r), w') \<and>
      length (logged w') = length (logged w) + 1"
    by (simp add: apply_rules)
  moreover have "\<exists>w'. match_sapcai intent (VFunc r) w1 = Inr (VFunc r, w') \<and>
      logged w' = logged w1 \<and>
      matcher_list w' r = matcher_list w1 r @ [VDict [(''sapcai_intent'', intent)]]"
    by (simp add: match_sapcai_apply logged_set_matchers matcher_list_set_matchers)
  ultimately show ?thesis
    using match_recastai_call [of env intent w] by blast
qed

text \<open>
  C6, as stated, says the warning accompanies each act of decorating a handler. One call
  of \<^verbatim>\<open>match_recastai("book_flight")\<close> whose result decorates two handlers logs a single
  warning for two decorations.
\<close>

theorem recastai_one_warning_two_decorations:
  "(case then_do (match_recastai env0 (VStr ''book_flight''))
           (\<lambda>matcher. then_do (matcher (VFunc 0)) (\<lambda>_. matcher (VFunc 1))) fresh_world of
      Inl e \<Rightarrow> False
    | Inr (f, w) \<Rightarrow>
        matcher_list w 0 = [VDict [(''sapcai_intent'', VStr ''book_flight'')]] \<and>
        matcher_list w 1 = [VDict [(''sapcai_intent'', VStr ''book_flight'')]] \<and>
        length (logged w) = 1 \<and>
        length (logged w) \<noteq> length (matcher_list w 0 @ matcher_list w 1))"
proof -
  let ?d = "VDict [(''sapcai_intent'', VStr ''book_flight'')]"
  let ?w1 = "fresh_world\<lparr>logged := logged fresh_world @ [Warning (gettext env0
     ''Recast.AI is now called SAP Conversational AI, this matcher  will stop working in the future. Use match_sapcai instead.'')]\<rparr>"
  let ?w2 = "set_matchers 0 (matcher_list ?w1 0 @ [?d]) ?w1"
  let ?w3 = "set_matchers 1 (matcher_list ?w2 1 @ [?d]) ?w2"
  have "then_do (match_recastai env0 (VStr ''book_flight''))
           (\<lambda>matcher. then_do (matcher (VFunc 0)) (\<lambda>_. matcher (VFunc 1))) fresh_world
        = then_do (match_sapcai (VStr ''book_flight'') (VFunc 0))
            (\<lambda>_. match_sapcai (VStr ''book_flight'') (VFunc 1)) ?w1"
    by (rule then_do_Inr) (rule match_recastai_call)
  also have "\<dots> = match_sapcai (VStr ''book_flight'') (VFunc 1) ?w2"
    by (rule then_do_Inr) (rule match_sapcai_apply)
  also have "\<dots> = Inr (VFunc 1, ?w3)"
    by (rule match_sapcai_apply)
  finally show ?thesis
    by (simp add: matcher_list_set_matchers logged_set_matchers)
qed

text \<open>
  C7, as the code has it. For every event type \<open>e\<close>, \<^verbatim>\<open>match_event(e)\<close> attaches a
  descriptor of kind \<^verbatim>\<open>event_type\<close> whose value is a mapping with the single key
  \<^verbatim>\<open>type\<close>, and that key holds \<open>e\<close> itself.
\<close>

theorem match_event_nests_type:
  "match_event e (VFunc r) w =
     Inr (VFunc r, set_matchers r (matcher_list w r @
       [VDict [(''event_type'', VDict [(''type'', e)])]]) w) \<and>
   attached env (Event e) = [VDict [(''event_type'', VDict [(''type'', e)])]]"
  by (simp add: match_event_apply attached_def apply_rules)

text \<open>
  C7, as stated, has the string \<open>e\<close> itself as the parameter under \<^verbatim>\<open>event_type\<close>. For
  \<^verbatim>\<open>match_event("message")\<close> the descriptor is not \<^verbatim>\<open>{"event_type": "message"}\<close>.
\<close>

theorem match_event_parameter_not_direct:
  "attached env0 (Event (VStr ''message'')) \<noteq> [VDict [(''event_type'', VStr ''message'')]]"
  by (simp add: attached_def apply_rules)

text \<open>
  C8. For every cron string \<open>c\<close>, \<^verbatim>\<open>match_crontab(c)\<close> with no timezone attaches the
  descriptor with the keys \<^verbatim>\<open>crontab\<close>, holding \<open>c\<close>, and \<^verbatim>\<open>timezone\<close>, holding
  \<^verbatim>\<open>None\<close>; \<^verbatim>\<open>match_webhook("deploy")\<close> attaches \<^verbatim>\<open>{"webhook": "deploy"}\<close> and no
  other key.
\<close>

theorem crontab_webhook_descriptors:
  "match_crontab c None (VFunc r) w =
     Inr (VFunc r, set_matchers r (matcher_list w r @
       [VDict [(''crontab'', c), (''timezone'', VNone)]]) w) \<and>
   match_webhook (VStr ''deploy'') (VFunc r) w =
     Inr (VFunc r, set_matchers r (matcher_list w r @
       [VDict [(''webhook'', VStr ''deploy'')]]) w) \<and>
   attached env (Crontab c None) = [VDict [(''crontab'', c), (''timezone'', VNone)]] \<and>
   attached env (Webhook (VStr ''deploy'')) = [VDict [(''webhook'', VStr ''deploy'')]]"
  by (simp add: match_crontab_apply match_webhook_apply attached_crontab attached_webhook
      arg_or_def)

text \<open>
  C9. For every argument \<open>x\<close> that is not callable, \<^verbatim>\<open>match_always(x)\<close> raises nothing,
  leaves the world as it was (no descriptor is attached anywhere) and returns the inner
  decorator, exactly as \<^verbatim>\<open>match_always()\<close> does.
\<close>

theorem match_always_non_callable:
  assumes "\<not> callable x"
  shows "match_always (Some x) w = match_always None w \<and>
     (\<exists>m. match_always (Some x) w = Inr (Closure m, w) \<and>
        (\<forall>r w'. m (VFunc r) w' =
           Inr (VFunc r,
                set_matchers r (matcher_list w' r @ [VDict [(''always'', VBool True)]]) w')))"
proof -
  have "match_always (Some x) w = match_always None w"
    using assms by (simp add: match_always_def arg_or_def)
  then show ?thesis
    using match_always_called [of w] by simp
qed

theorem match_always_non_callable_witness:
  "\<not> callable (VStr ''hello'') \<and>
   match_always (Some (VStr ''hello'')) fresh_world = match_always None fresh_world \<and>
   (\<exists>m. match_always (Some (VStr ''hello'')) fresh_world = Inr (Closure m, fresh_world))"
proof -
  have h: "\<not> callable (VStr ''hello'')" by simp
  from match_always_non_callable [OF h, of fresh_world] h show ?thesis by blast
qed

end
